theory Spec2Isabelle
  imports Complex_Main
begin

section \<open>JavaScript values\<close>

text \<open>
  The routes of \<^verbatim>\<open>src/routes/apiRoutes.js\<close> read fields of a JSON request body, of the
  query string and of the process environment. A field is one of the values below;
  \<open>JUndefined\<close> is the absent field. Numbers of a JSON body are finite, so they are
  modelled as reals. Arrays and objects are opaque (\<open>JObj\<close> with an identity).
  Strings are byte strings; the string functions below are exact on ASCII text.
\<close>

datatype jsval =
    JUndefined
  | JNull
  | JBool bool
  | JNum real
  | JStr string
  | JObj nat

text \<open>The operand of \<^verbatim>\<open>!x\<close>: which values JavaScript takes as true.\<close>

fun truthy :: "jsval \<Rightarrow> bool" where
  "truthy JUndefined = False"
| "truthy JNull = False"
| "truthy (JBool b) = b"
| "truthy (JNum r) = (r \<noteq> 0)"
| "truthy (JStr s) = (s \<noteq> [])"
| "truthy (JObj i) = True"

text \<open>
  \<^verbatim>\<open>ToNumber\<close>, as the comparisons \<^verbatim>\<open>batteryLevel > 0\<close> and \<^verbatim>\<open>batteryLevel <= 100\<close>
  apply it to a non-numeric operand. The conversion of strings and objects is the
  language's own and is taken as the parameter \<open>conv\<close>; \<open>None\<close> stands for a result
  that no comparison with a finite bound accepts (\<^verbatim>\<open>NaN\<close>).
\<close>

fun toNumber :: "(jsval \<Rightarrow> real option) \<Rightarrow> jsval \<Rightarrow> real option" where
  "toNumber conv JUndefined = None"
| "toNumber conv JNull = Some 0"
| "toNumber conv (JBool b) = Some (if b then 1 else 0)"
| "toNumber conv (JNum r) = Some r"
| "toNumber conv v = conv v"

subsection \<open>Strings: \<^verbatim>\<open>toLowerCase\<close>, \<^verbatim>\<open>trim\<close>, \<^verbatim>\<open>parseInt\<close>\<close>

definition lower_char :: "char \<Rightarrow> char" where
  "lower_char c =
     (let n = (of_char c :: nat) in if 65 \<le> n \<and> n \<le> 90 then char_of (n + 32) else c)"

definition toLowerCase :: "string \<Rightarrow> string" where
  "toLowerCase s = map lower_char s"

definition is_space :: "char \<Rightarrow> bool" where
  "is_space c = (let n = (of_char c :: nat) in (9 \<le> n \<and> n \<le> 13) \<or> n = 32)"

definition trim_start :: "string \<Rightarrow> string" where
  "trim_start s = dropWhile is_space s"

definition trim :: "string \<Rightarrow> string" where
  "trim s = rev (dropWhile is_space (rev (dropWhile is_space s)))"

text \<open>The value of a digit in radix \<open>r\<close> (10 or 16), if the character is one.\<close>

definition digit_val :: "nat \<Rightarrow> char \<Rightarrow> nat option" where
  "digit_val r c =
     (let n = (of_char c :: nat);
          v = (if 48 \<le> n \<and> n \<le> 57 then n - 48
               else if 97 \<le> n \<and> n \<le> 122 then n - 87
               else if 65 \<le> n \<and> n \<le> 90 then n - 55
               else 36)
      in if v < r then Some v else None)"

text \<open>The longest prefix of digits, read left to right; the count of digits read.\<close>

fun read_digits :: "nat \<Rightarrow> string \<Rightarrow> nat \<times> nat \<Rightarrow> nat \<times> nat" where
  "read_digits r [] acc = acc"
| "read_digits r (c # cs) (v, k) =
     (case digit_val r c of
        None \<Rightarrow> (v, k)
      | Some d \<Rightarrow> read_digits r cs (v * r + d, Suc k))"

text \<open>
  \<^verbatim>\<open>parseInt(string)\<close> with no radix: leading white space is skipped, then an optional
  sign, then an optional \<^verbatim>\<open>0x\<close> (radix 16), then the longest run of digits. \<open>None\<close>
  is \<^verbatim>\<open>NaN\<close> (no digit was read). The result is the mathematical integer.
\<close>

definition parseInt :: "string \<Rightarrow> int option" where
  "parseInt inputString =
     (let s = trim_start inputString;
          (sign, s1) = (case s of
              c # cs \<Rightarrow> (if c = CHR ''-'' then (-1, cs)
                          else if c = CHR ''+'' then (1, cs) else (1::int, s))
            | [] \<Rightarrow> (1, s));
          (radix, s2) = (case s1 of
              c0 # c1 # cs \<Rightarrow>
                (if c0 = CHR ''0'' \<and> (c1 = CHR ''x'' \<or> c1 = CHR ''X'') then (16, cs)
                 else (10::nat, s1))
            | _ \<Rightarrow> (10, s1));
          (v, k) = read_digits radix s2 (0, 0)
      in if k = 0 then None else Some (sign * int v))"

text \<open>
  A query-string parameter is absent or a string (a parameter that is repeated or
  written with brackets, which the framework parses to an array or an object, is not
  modelled). \<^verbatim>\<open>parseInt\<close> converts its argument with \<^verbatim>\<open>ToString\<close> first, so the
  absent parameter is read as the text "undefined".
\<close>

definition toString_q :: "string option \<Rightarrow> string" where
  "toString_q q = (case q of None \<Rightarrow> ''undefined'' | Some s \<Rightarrow> s)"

text \<open>\<^verbatim>\<open>parseInt(q) || 0\<close>: \<^verbatim>\<open>NaN\<close> and 0 are falsy, so both give 0.\<close>

definition offset_of :: "string option \<Rightarrow> int" where
  "offset_of q =
     (case parseInt (toString_q q) of
        None \<Rightarrow> 0
      | Some n \<Rightarrow> (if n \<noteq> 0 then n else 0))"

text \<open>\<^verbatim>\<open>req.query.appName || null\<close>: an absent or empty filter is no filter.\<close>

definition appName_of :: "string option \<Rightarrow> string option" where
  "appName_of q = (case q of None \<Rightarrow> None | Some s \<Rightarrow> (if s \<noteq> [] then Some s else None))"

section \<open>Configuration flags\<close>

definition parseBoolean :: "jsval \<Rightarrow> bool \<Rightarrow> bool" where
  "parseBoolean v defaultValue =
     (if v = JUndefined \<or> v = JNull \<or> v = JStr [] then defaultValue
      else case v of
          JBool b \<Rightarrow> b
        | JStr value \<Rightarrow>
            (let str = trim (toLowerCase value)
             in str = ''true'' \<or> str = ''1'' \<or> str = ''yes'' \<or> str = ''on'')
        | JNum r \<Rightarrow> r \<noteq> 0
        | _ \<Rightarrow> defaultValue)"

text \<open>
  The process environment, as far as the routes read it: \<^verbatim>\<open>process.env.WEB_SUMMARY\<close>
  (a string, or \<open>JUndefined\<close> when the variable is not set).
\<close>

record env =
  WEB_SUMMARY :: jsval

definition isSummaryAllowed :: "env \<Rightarrow> string \<Rightarrow> bool" where
  "isSummaryAllowed e deviceId =
     (if deviceId \<noteq> ''summary'' then True else parseBoolean (WEB_SUMMARY e) False)"


text \<open>
  \<^verbatim>\<open>src/index.js\<close>: \<^verbatim>\<open>const SECRET = process.env.SECRET || 'default-secret-key'\<close>.
  The environment variable is a string or is not set.
\<close>

definition SECRET :: "jsval \<Rightarrow> jsval" where
  "SECRET env_secret = (if truthy env_secret then env_secret else JStr ''default-secret-key'')"

section \<open>Replies\<close>

text \<open>
  A handler answers once: either \<^verbatim>\<open>res.json(payload)\<close> (status 200) or
  \<^verbatim>\<open>res.status(code).json({error, details})\<close>.
\<close>

datatype 'a response =
    Json 'a
  | Fail nat string "string option"

type_synonym instant = nat

section \<open>The query routes\<close>

record stats =
  totalUsage :: nat
  appStats :: "string \<rightharpoonup> nat"
  hourlyStats :: "nat list"
  appHourlyStats :: "string \<rightharpoonup> nat list"

text \<open>
  The methods of \<^verbatim>\<open>statsQuery\<close> that the routes call. The class
  (\<^verbatim>\<open>services/StatsQuery\<close>) is not part of the sources at hand, so the routes take its
  methods as parameters. A method returns a value (\<open>Inr\<close>; \<open>None\<close> is a null or absent
  result) or throws (\<open>Inl\<close> with the error's message). The weekly and monthly results are
  passed through by the routes and stay abstract.
\<close>

record ('w, 'm) query_engine =
  getDailyStats :: "string \<Rightarrow> instant \<Rightarrow> string + stats option"
  getDailyStatsForAllDevices :: "instant \<Rightarrow> string + stats option"
  getWeeklyAppStats :: "string \<Rightarrow> string option \<Rightarrow> int \<Rightarrow> string + 'w"
  getWeeklyAppStatsForAllDevices :: "string option \<Rightarrow> int \<Rightarrow> string + 'w"
  getMonthlyAppStats :: "string \<Rightarrow> string option \<Rightarrow> int \<Rightarrow> string + 'm"
  getMonthlyAppStatsForAllDevices :: "string option \<Rightarrow> int \<Rightarrow> string + 'm"

definition zero_stats :: stats where
  "zero_stats =
     \<lparr>totalUsage = 0, appStats = Map.empty, hourlyStats = replicate 24 0,
      appHourlyStats = Map.empty\<rparr>"

text \<open>
  The date of a daily query. \<^verbatim>\<open>if (req.query.date)\<close> takes an absent and an empty
  parameter alike; \<^verbatim>\<open>new Date(string)\<close> is the language's parser, the parameter
  \<open>parseDate\<close> (\<open>None\<close> is the invalid date, whose \<^verbatim>\<open>getTime()\<close> is \<^verbatim>\<open>NaN\<close>);
  \<^verbatim>\<open>new Date()\<close> is the current instant \<open>now\<close>.
\<close>

definition query_date :: "(string \<Rightarrow> instant option) \<Rightarrow> instant \<Rightarrow> string option \<Rightarrow> instant option" where
  "query_date parseDate now date_q =
     (case date_q of
        None \<Rightarrow> Some now
      | Some s \<Rightarrow> (if s \<noteq> [] then parseDate s else Some now))"

definition stats_route ::
  "env \<Rightarrow> (string \<Rightarrow> instant option) \<Rightarrow> ('w, 'm) query_engine \<Rightarrow> instant \<Rightarrow>
   string \<Rightarrow> string option \<Rightarrow> stats response" where
  "stats_route e parseDate q now deviceId date_q =
     (if \<not> isSummaryAllowed e deviceId then Fail 403 ''Summary is disabled'' None
      else case query_date parseDate now date_q of
          None \<Rightarrow> Fail 400 ''Invalid date format. Please use YYYY-MM-DD format.'' None
        | Some date \<Rightarrow>
            (case (if deviceId = ''summary'' then getDailyStatsForAllDevices q date
                   else getDailyStats q deviceId date) of
               Inl msg \<Rightarrow> Fail 500 ''Database error'' (Some msg)
             | Inr None \<Rightarrow> Json zero_stats
             | Inr (Some s) \<Rightarrow> (if totalUsage s = 0 then Json zero_stats else Json s)))"

definition weekly_route ::
  "env \<Rightarrow> ('w, 'm) query_engine \<Rightarrow> string \<Rightarrow> string option \<Rightarrow> string option \<Rightarrow> 'w response" where
  "weekly_route e q deviceId weekOffset_q appName_q =
     (if \<not> isSummaryAllowed e deviceId then Fail 403 ''Summary is disabled'' None
      else
        let weekOffset = offset_of weekOffset_q;
            appName = appName_of appName_q
        in case (if deviceId = ''summary''
                 then getWeeklyAppStatsForAllDevices q appName weekOffset
                 else getWeeklyAppStats q deviceId appName weekOffset) of
             Inl msg \<Rightarrow> Fail 500 ''Database error'' (Some msg)
           | Inr s \<Rightarrow> Json s)"

definition monthly_route ::
  "env \<Rightarrow> ('w, 'm) query_engine \<Rightarrow> string \<Rightarrow> string option \<Rightarrow> string option \<Rightarrow> 'm response" where
  "monthly_route e q deviceId monthOffset_q appName_q =
     (if \<not> isSummaryAllowed e deviceId then Fail 403 ''Summary is disabled'' None
      else
        let monthOffset = offset_of monthOffset_q;
            appName = appName_of appName_q
        in case (if deviceId = ''summary''
                 then getMonthlyAppStatsForAllDevices q appName monthOffset
                 else getMonthlyAppStats q deviceId appName monthOffset) of
             Inl msg \<Rightarrow> Fail 500 ''Database error'' (Some msg)
           | Inr s \<Rightarrow> Json s)"

section \<open>The recorder\<close>

text \<open>
  The state of \<^verbatim>\<open>statsRecorder\<close>. The routes read \<^verbatim>\<open>recentAppSwitches\<close> directly: a
  \<^verbatim>\<open>Map\<close> from a device to an array of entries with the fields \<^verbatim>\<open>appName\<close>,
  \<^verbatim>\<open>timestamp\<close> and \<^verbatim>\<open>running\<close>. A key is the value the reporting client sent as
  \<^verbatim>\<open>device\<close>. The battery store and the usage sessions follow the data model of the
  specification (BatteryState, UsageSession).
\<close>

record switch_entry =
  appName :: jsval
  timestamp :: instant
  running :: jsval

record battery_state =
  level :: jsval
  charging :: bool
  observedAt :: instant

record usage_session =
  us_device :: jsval
  us_app :: jsval
  startedAt :: instant
  endedAt :: "instant option"

record recorder =
  batteryInfo :: "jsval \<rightharpoonup> battery_state"
  recentAppSwitches :: "jsval \<rightharpoonup> switch_entry list"
  sessions :: "usage_session list"

definition empty_recorder :: recorder where
  "empty_recorder = \<lparr>batteryInfo = Map.empty, recentAppSwitches = Map.empty, sessions = []\<rparr>"

text \<open>\<^verbatim>\<open>batteryLevel > 0 && batteryLevel <= 100\<close>\<close>

definition in_range :: "(jsval \<Rightarrow> real option) \<Rightarrow> jsval \<Rightarrow> bool" where
  "in_range conv v = (case toNumber conv v of None \<Rightarrow> False | Some r \<Rightarrow> 0 < r \<and> r \<le> 100)"

subsection \<open>Battery tracker\<close>

text \<open>
  Modelled from the spec: \<^verbatim>\<open>StatsRecorder.recordBattery\<close> is missing from the sources.
  It rejects a level outside (0,100] (here: throws, \<open>Inl\<close>); otherwise it overwrites the
  device's battery state, observed at the instant \<open>t\<close> of the call.
\<close>

definition recordBattery ::
  "(jsval \<Rightarrow> real option) \<Rightarrow> instant \<Rightarrow> recorder \<Rightarrow> jsval \<Rightarrow> jsval \<Rightarrow> bool \<Rightarrow> string + recorder" where
  "recordBattery conv t st dev lvl chg =
     (if in_range conv lvl
      then Inr (st\<lparr>batteryInfo := (batteryInfo st)(dev \<mapsto> \<lparr>level = lvl, charging = chg, observedAt = t\<rparr>)\<rparr>)
      else Inl ''InvalidInput'')"

text \<open>
  Modelled from the spec: \<^verbatim>\<open>StatsRecorder.getLatestBatteryInfo\<close> is missing from the
  sources. It returns the stored battery state, or no data (\<open>None\<close>) for a device that
  never reported one.
\<close>

definition getLatestBatteryInfo :: "recorder \<Rightarrow> jsval \<Rightarrow> battery_state option" where
  "getLatestBatteryInfo st dev = batteryInfo st dev"

subsection \<open>Session recorder\<close>

text \<open>
  Modelled from the spec: the session state of \<^verbatim>\<open>StatsRecorder\<close> is missing from the
  sources. The recorder keeps the usage sessions it has derived; a session is open
  until it has an end. The state of a device is \<open>NoSession\<close>, or \<open>Open app start\<close>
  for its open session.
\<close>

datatype session_state = NoSession | Open jsval instant

definition is_open :: "jsval \<Rightarrow> usage_session \<Rightarrow> bool" where
  "is_open dev s = (us_device s = dev \<and> endedAt s = None)"

definition open_session :: "recorder \<Rightarrow> jsval \<Rightarrow> usage_session option" where
  "open_session st dev = find (is_open dev) (sessions st)"

definition session_state_of :: "recorder \<Rightarrow> jsval \<Rightarrow> session_state" where
  "session_state_of st dev =
     (case open_session st dev of
        None \<Rightarrow> NoSession
      | Some s \<Rightarrow> Open (us_app s) (startedAt s))"

text \<open>Closes the open session that \<open>open_session\<close> finds: the first one of the device.\<close>

fun close_session :: "jsval \<Rightarrow> instant \<Rightarrow> usage_session list \<Rightarrow> usage_session list" where
  "close_session dev t [] = []"
| "close_session dev t (s # ss) =
     (if is_open dev s then s\<lparr>endedAt := Some t\<rparr> # ss else s # close_session dev t ss)"

text \<open>The recent-event buffer: insertion order, the oldest entries dropped beyond \<open>cap\<close>.\<close>

definition push_recent :: "nat \<Rightarrow> switch_entry \<Rightarrow> switch_entry list \<Rightarrow> switch_entry list" where
  "push_recent cap e buf = (let b = buf @ [e] in drop (length b - cap) b)"

text \<open>
  Modelled from the spec: \<^verbatim>\<open>StatsRecorder.recordUsage\<close> is missing from the sources.
  The result is the error thrown, if any, and the state left behind.
  \<^item> An event that is not an explicit stop and has no app name is invalid input: no
    state change.
  \<^item> The event is appended to the device's recent-event buffer, whatever follows.
  \<^item> Steps 1 and 2: a stop closes the open session of that app, and is ignored when
    there is none. Steps 3 to 5: a start opens a session when none is open, replaces
    the open session of another app, and is ignored for the app already open.
  \<^item> Closing a session writes its duration to the durable counters; \<open>storage_ok\<close> says
    whether that write succeeds. A failed write throws and leaves the sessions as they
    were. The counters themselves are not part of this model.
\<close>

definition recordUsage ::
  "nat \<Rightarrow> bool \<Rightarrow> instant \<Rightarrow> recorder \<Rightarrow> jsval \<Rightarrow> jsval \<Rightarrow> jsval \<Rightarrow> string option \<times> recorder" where
  "recordUsage cap storage_ok t st dev app run =
     (if run \<noteq> JBool False \<and> \<not> truthy app then (Some ''InvalidInput'', st)
      else
        let buf = (case recentAppSwitches st dev of None \<Rightarrow> [] | Some b \<Rightarrow> b);
            st1 = st\<lparr>recentAppSwitches := (recentAppSwitches st)
                       (dev \<mapsto> push_recent cap \<lparr>appName = app, timestamp = t, running = run\<rparr> buf)\<rparr>;
            fresh = \<lparr>us_device = dev, us_app = app, startedAt = t, endedAt = None\<rparr>
        in case open_session st dev of
             None \<Rightarrow>
               (if run = JBool False then (None, st1)
                else (None, st1\<lparr>sessions := sessions st @ [fresh]\<rparr>))
           | Some s \<Rightarrow>
               (if run = JBool False then
                  (if us_app s = app then
                     (if storage_ok
                      then (None, st1\<lparr>sessions := close_session dev t (sessions st)\<rparr>)
                      else (Some ''StorageFailure'', st1))
                   else (None, st1))
                else
                  (if us_app s = app then (None, st1)
                   else if storage_ok
                   then (None, st1\<lparr>sessions := close_session dev t (sessions st) @ [fresh]\<rparr>)
                   else (Some ''StorageFailure'', st1))))"

section \<open>The ingestion route\<close>

text \<open>
  The fields the handler takes from the request body. The body's field \<^verbatim>\<open>running\<close> is
  \<open>running_field\<close> here, since \<open>running\<close> is the field of a stored entry.
\<close>

record post_body =
  secret :: jsval
  device :: jsval
  app_name :: jsval
  running_field :: jsval
  batteryLevel :: jsval
  isCharging :: jsval

text \<open>
  What the handler takes from its surroundings: the configured secret, the language's
  number conversion, the recorder's buffer capacity, whether durable writes succeed,
  and the clock. The handler is called at \<open>called\<close>; the battery sample, the usage
  event and the reply read the clock later by the given lags.
\<close>

record ctx =
  env_secret :: jsval
  conv :: "jsval \<Rightarrow> real option"
  capacity :: nat
  storage_ok :: bool
  called :: instant
  lag_battery :: nat
  lag_usage :: nat
  lag_reply :: nat

record post_reply =
  success :: bool
  reply_batteryInfo :: "battery_state option"
  reply_timestamp :: instant

text \<open>Step 1 of the handler: the battery sample, when one in range is present.\<close>

definition battery_step :: "ctx \<Rightarrow> recorder \<Rightarrow> post_body \<Rightarrow> string + recorder" where
  "battery_step c st b =
     (if batteryLevel b \<noteq> JUndefined \<and> in_range (conv c) (batteryLevel b)
      then recordBattery (conv c) (called c + lag_battery c) st (device b) (batteryLevel b)
             (isCharging b = JBool True)
      else Inr st)"

definition post_route :: "ctx \<Rightarrow> recorder \<Rightarrow> post_body \<Rightarrow> post_reply response \<times> recorder" where
  "post_route c st b =
     (if secret b \<noteq> SECRET (env_secret c) then (Fail 401 ''Invalid secret'' None, st)
      else if \<not> truthy (device b) then (Fail 400 ''Missing device'' None, st)
      else case battery_step c st b of
          Inl msg \<Rightarrow> (Fail 500 ''Database error'' (Some msg), st)
        | Inr st1 \<Rightarrow>
            (if app_name b \<noteq> JUndefined \<or> running_field b \<noteq> JUndefined then
               (if running_field b \<noteq> JBool False \<and> \<not> truthy (app_name b)
                then (Fail 400 ''Missing app_name when running is true'' None, st1)
                else
                  (case recordUsage (capacity c) (storage_ok c)
                          (called c + lag_battery c + lag_usage c) st1
                          (device b) (app_name b) (running_field b) of
                     (Some msg, st2) \<Rightarrow> (Fail 500 ''Database error'' (Some msg), st2)
                   | (None, st2) \<Rightarrow>
                       (Json \<lparr>success = True,
                              reply_batteryInfo = getLatestBatteryInfo st2 (device b),
                              reply_timestamp =
                                called c + lag_battery c + lag_usage c + lag_reply c\<rparr>, st2)))
             else
               (Json \<lparr>success = True,
                      reply_batteryInfo = getLatestBatteryInfo st1 (device b),
                      reply_timestamp = called c + lag_battery c + lag_usage c + lag_reply c\<rparr>,
                st1)))"

section \<open>The recent-switches routes\<close>

record recent_entry =
  r_appName :: jsval
  r_timestamp :: instant
  r_running :: bool

definition entry_view :: "switch_entry \<Rightarrow> recent_entry" where
  "entry_view entry =
     \<lparr>r_appName = appName entry, r_timestamp = timestamp entry,
      r_running = (running entry \<noteq> JBool False)\<rparr>"

record recent_reply =
  rr_success :: bool
  rr_data :: "recent_entry list"
  rr_count :: nat

definition recent_route :: "recorder \<Rightarrow> string \<Rightarrow> recent_reply response" where
  "recent_route st deviceId =
     (let records =
        (case recentAppSwitches st (JStr deviceId) of
           None \<Rightarrow> []
         | Some switchEntries \<Rightarrow> map entry_view switchEntries)
      in Json \<lparr>rr_success = True, rr_data = records, rr_count = length records\<rparr>)"

text \<open>
  The route for all devices applies the same \<open>entry_view\<close> to the entries of every
  buffer. It collects the results in a plain object whose property names are the
  devices converted to strings; that object, and the count beside it, are not modelled.
\<close>

section \<open>Sequences of ingestion requests\<close>

text \<open>The recorder after a sequence of requests, each handled in its own context.\<close>

fun ingest_all :: "recorder \<Rightarrow> (ctx \<times> post_body) list \<Rightarrow> recorder" where
  "ingest_all st [] = st"
| "ingest_all st ((c, b) # rs) = ingest_all (snd (post_route c st b)) rs"

text \<open>The number of sessions of a device that are open.\<close>

definition open_count :: "jsval \<Rightarrow> usage_session list \<Rightarrow> nat" where
  "open_count dev ss = length (filter (is_open dev) ss)"

section \<open>The all-devices merge\<close>

text \<open>
  Modelled from the spec: the merge of \<^verbatim>\<open>StatsQuery.getDailyStatsForAllDevices\<close>, which
  is missing from the sources. Two statistics are merged by adding the totals, adding
  the per-app durations app by app, and adding the 24 hourly slots slot by slot, for
  the device and for each app. An app that one side does not report keeps the other
  side's entry.
\<close>

definition add_opt :: "nat option \<Rightarrow> nat option \<Rightarrow> nat option" where
  "add_opt x y =
     (case x of
        None \<Rightarrow> y
      | Some a \<Rightarrow> (case y of None \<Rightarrow> Some a | Some b \<Rightarrow> Some (a + b)))"

definition add_hist :: "nat list \<Rightarrow> nat list \<Rightarrow> nat list" where
  "add_hist a b = map (\<lambda>h. a ! h + b ! h) [0..<24]"

definition add_opt_hist :: "nat list option \<Rightarrow> nat list option \<Rightarrow> nat list option" where
  "add_opt_hist x y =
     (case x of
        None \<Rightarrow> y
      | Some a \<Rightarrow> (case y of None \<Rightarrow> Some a | Some b \<Rightarrow> Some (add_hist a b)))"

definition merge_stats :: "stats \<Rightarrow> stats \<Rightarrow> stats" where
  "merge_stats m s =
     \<lparr>totalUsage = totalUsage m + totalUsage s,
      appStats = (\<lambda>a. add_opt (appStats m a) (appStats s a)),
      hourlyStats = add_hist (hourlyStats m) (hourlyStats s),
      appHourlyStats = (\<lambda>a. add_opt_hist (appHourlyStats m a) (appHourlyStats s a))\<rparr>"

text \<open>
  Modelled from the spec: \<^verbatim>\<open>StatsQuery.getDailyStatsForAllDevices\<close> is missing from the
  sources. It computes the daily statistics of every known device, in the order of the
  device list, and merges them into an accumulator that starts as the zero structure.
  A device without a result is skipped; a failing query fails the merge. The list of
  devices (\<^verbatim>\<open>getDevices\<close>) and the per-device query are parameters.
\<close>

fun merge_devices :: "(string \<Rightarrow> string + stats option) \<Rightarrow> string list \<Rightarrow> stats \<Rightarrow> string + stats" where
  "merge_devices f [] acc = Inr acc"
| "merge_devices f (d # ds) acc =
     (case f d of
        Inl msg \<Rightarrow> Inl msg
      | Inr None \<Rightarrow> merge_devices f ds acc
      | Inr (Some s) \<Rightarrow> merge_devices f ds (merge_stats acc s))"

definition all_devices_daily ::
  "(string \<Rightarrow> instant \<Rightarrow> string + stats option) \<Rightarrow> string list \<Rightarrow> instant \<Rightarrow> string + stats option" where
  "all_devices_daily daily devices date =
     (case merge_devices (\<lambda>d. daily d date) devices zero_stats of
        Inl msg \<Rightarrow> Inl msg
      | Inr m \<Rightarrow> Inr (Some m))"

text \<open>
  The element-wise sum in the specification's words: the total of the totals, for each
  app the sum of its durations over the devices that report it, and for each of the 24
  hours the sum of that slot. A device without a result counts as the zero structure.
\<close>

definition stats_or_zero :: "string + stats option \<Rightarrow> stats" where
  "stats_or_zero r = (case r of Inr (Some s) \<Rightarrow> s | _ \<Rightarrow> zero_stats)"

definition sum_stats :: "stats list \<Rightarrow> stats" where
  "sum_stats xs =
     \<lparr>totalUsage = (\<Sum>x\<leftarrow>xs. totalUsage x),
      appStats = (\<lambda>a.
        if \<exists>x\<in>set xs. appStats x a \<noteq> None
        then Some (\<Sum>x\<leftarrow>xs. case appStats x a of None \<Rightarrow> 0 | Some v \<Rightarrow> v)
        else None),
      hourlyStats = map (\<lambda>h. \<Sum>x\<leftarrow>xs. hourlyStats x ! h) [0..<24],
      appHourlyStats = (\<lambda>a.
        if \<exists>x\<in>set xs. appHourlyStats x a \<noteq> None
        then Some (map (\<lambda>h. \<Sum>x\<leftarrow>xs. case appHourlyStats x a of None \<Rightarrow> 0 | Some hs \<Rightarrow> hs ! h)
                     [0..<24])
        else None)\<rparr>"

text \<open>Statistics are well formed when every histogram has 24 entries.\<close>

definition wf_stats :: "stats \<Rightarrow> bool" where
  "wf_stats s \<longleftrightarrow>
     length (hourlyStats s) = 24 \<and> (\<forall>a hs. appHourlyStats s a = Some hs \<longrightarrow> length hs = 24)"

section \<open>Concrete inputs\<close>

text \<open>A query engine with fixed answers, for evaluating the routes.\<close>

definition demo_engine :: "(nat, nat) query_engine" where
  "demo_engine =
     \<lparr>getDailyStats = (\<lambda>d t.
        if d = ''phone''
        then Inr (Some \<lparr>totalUsage = 0, appStats = [''mail'' \<mapsto> 0],
                        hourlyStats = replicate 24 0, appHourlyStats = Map.empty\<rparr>)
        else Inr None),
      getDailyStatsForAllDevices = (\<lambda>t.
        Inr (Some \<lparr>totalUsage = 5, appStats = [''mail'' \<mapsto> 5],
                   hourlyStats = replicate 24 0, appHourlyStats = Map.empty\<rparr>)),
      getWeeklyAppStats = (\<lambda>d a n. Inr (nat (30 + n))),
      getWeeklyAppStatsForAllDevices = (\<lambda>a n. Inr (nat (10 + n))),
      getMonthlyAppStats = (\<lambda>d a n. Inr (nat (40 + n))),
      getMonthlyAppStatsForAllDevices = (\<lambda>a n. Inr (nat (20 + n)))\<rparr>"

text \<open>An ingestion context, a stored battery state and request bodies.\<close>

definition demo_ctx :: ctx where
  "demo_ctx =
     \<lparr>env_secret = JUndefined, conv = (\<lambda>v. None), capacity = 3, storage_ok = True,
      called = 1000, lag_battery = 2, lag_usage = 3, lag_reply = 4\<rparr>"

definition demo_recorder :: recorder where
  "demo_recorder =
     empty_recorder\<lparr>batteryInfo :=
       [JStr ''phone'' \<mapsto> \<lparr>level = JNum 80, charging = False, observedAt = 500\<rparr>]\<rparr>"

definition demo_body :: post_body where
  "demo_body =
     \<lparr>secret = JStr ''default-secret-key'', device = JStr ''phone'', app_name = JUndefined,
      running_field = JUndefined, batteryLevel = JUndefined, isCharging = JUndefined\<rparr>"

definition bad_app_body :: post_body where
  "bad_app_body = demo_body\<lparr>batteryLevel := JNum 50, running_field := JBool True\<rparr>"

definition level0_body :: post_body where
  "level0_body = demo_body\<lparr>batteryLevel := JNum 0\<rparr>"

definition level101_body :: post_body where
  "level101_body = demo_body\<lparr>batteryLevel := JNum 101\<rparr>"

definition demo_env :: env where
  "demo_env = \<lparr>WEB_SUMMARY = JUndefined\<rparr>"

definition demo_body55 :: post_body where
  "demo_body55 =
     demo_body\<lparr>batteryLevel := JNum 55, isCharging := JBool True, app_name := JStr ''mail''\<rparr>"

text \<open>
  A date parser that reads one date only, an engine whose daily answer shows the date it
  was asked for, and the recorder after a start and a stop event of one device.
\<close>

definition demo_parseDate :: "string \<Rightarrow> instant option" where
  "demo_parseDate s = (if s = ''2024-01-15'' then Some 1705276800000 else None)"

definition watch_stats :: "instant \<Rightarrow> stats" where
  "watch_stats t =
     \<lparr>totalUsage = t, appStats = [''maps'' \<mapsto> t],
      hourlyStats = (replicate 24 0)[9 := t], appHourlyStats = Map.empty\<rparr>"

definition watch_engine :: "(nat, nat) query_engine" where
  "watch_engine = demo_engine\<lparr>getDailyStats := (\<lambda>d t. Inr (Some (watch_stats t)))\<rparr>"

definition after_events :: recorder where
  "after_events =
     snd (post_route demo_ctx
            (snd (post_route demo_ctx demo_recorder (demo_body\<lparr>app_name := JStr ''mail''\<rparr>)))
            (demo_body\<lparr>app_name := JStr ''mail'', running_field := JBool False\<rparr>))"

text \<open>A sequence of requests of two devices, and per-device daily statistics.\<close>

definition demo_requests :: "(ctx \<times> post_body) list" where
  "demo_requests =
     [(demo_ctx, demo_body\<lparr>app_name := JStr ''mail''\<rparr>),
      (demo_ctx\<lparr>called := 2000\<rparr>, demo_body\<lparr>app_name := JStr ''maps'', batteryLevel := JNum 40\<rparr>),
      (demo_ctx\<lparr>called := 3000\<rparr>, demo_body\<lparr>device := JStr ''tablet'', app_name := JStr ''mail''\<rparr>),
      (demo_ctx\<lparr>called := 4000\<rparr>, demo_body\<lparr>app_name := JStr ''maps''\<rparr>),
      (demo_ctx\<lparr>called := 5000\<rparr>, demo_body\<lparr>app_name := JStr ''mail'', running_field := JBool False\<rparr>)]"

definition demo_daily :: "string \<Rightarrow> instant \<Rightarrow> string + stats option" where
  "demo_daily d t =
     (if d = ''phone''
      then Inr (Some \<lparr>totalUsage = 5, appStats = [''mail'' \<mapsto> 5],
                      hourlyStats = (replicate 24 0)[9 := 5],
                      appHourlyStats = [''mail'' \<mapsto> (replicate 24 0)[9 := 5]]\<rparr>)
      else if d = ''watch''
      then Inr (Some \<lparr>totalUsage = t, appStats = [''mail'' \<mapsto> 2, ''maps'' \<mapsto> t - 2],
                      hourlyStats = (replicate 24 0)[9 := 2, 10 := t - 2],
                      appHourlyStats = [''mail'' \<mapsto> (replicate 24 0)[9 := 2],
                                        ''maps'' \<mapsto> (replicate 24 0)[10 := t - 2]]\<rparr>)
      else Inr None)"

section \<open>Facts about the helpers\<close>

lemma parseInt_undefined: "parseInt ''undefined'' = None"
  by code_simp

lemma parseInt_zero: "parseInt ''0'' = Some 0"
  by code_simp

lemma offset_of_absent: "offset_of None = 0"
  by (simp add: offset_of_def toString_q_def parseInt_undefined)

lemma offset_of_present:
  "offset_of (Some s) = (case parseInt s of None \<Rightarrow> 0 | Some n \<Rightarrow> n)"
  by (simp add: offset_of_def toString_q_def split: option.split)

lemma parseBoolean_unset: "\<not> parseBoolean JUndefined False"
  by (simp add: parseBoolean_def)

lemma parseBoolean_string:
  "parseBoolean (JStr s) False \<longleftrightarrow>
     trim (toLowerCase s) \<in> {''true'', ''1'', ''yes'', ''on''}"
proof (cases "s = []")
  case True
  then show ?thesis by (simp add: parseBoolean_def trim_def toLowerCase_def)
next
  case False
  then show ?thesis by (simp add: parseBoolean_def Let_def)
qed

lemma parseBoolean_off: "\<not> parseBoolean (JStr ''off'') False"
  by code_simp

lemma parseBoolean_yes: "parseBoolean (JStr '' Yes '') False"
  by code_simp

section \<open>The summary sentinel\<close>

text \<open>
  Claim C9. On the daily, weekly and monthly routes the device identifier "summary"
  addresses the all-devices aggregation. Unless \<^verbatim>\<open>WEB_SUMMARY\<close> parses as true, every
  such query is answered 403. When it does, the reply is built from the all-devices
  method alone, so the per-device methods are never asked about a device named
  "summary": replacing them changes no reply.
\<close>

theorem summary_sentinel:
  "stats_route e parseDate q now ''summary'' date_q =
     (if parseBoolean (WEB_SUMMARY e) False
      then (case query_date parseDate now date_q of
              None \<Rightarrow> Fail 400 ''Invalid date format. Please use YYYY-MM-DD format.'' None
            | Some date \<Rightarrow>
                (case getDailyStatsForAllDevices q date of
                   Inl msg \<Rightarrow> Fail 500 ''Database error'' (Some msg)
                 | Inr None \<Rightarrow> Json zero_stats
                 | Inr (Some s) \<Rightarrow> (if totalUsage s = 0 then Json zero_stats else Json s)))
      else Fail 403 ''Summary is disabled'' None)
   \<and> weekly_route e q ''summary'' weekOffset_q appName_q =
     (if parseBoolean (WEB_SUMMARY e) False
      then (case getWeeklyAppStatsForAllDevices q (appName_of appName_q) (offset_of weekOffset_q) of
              Inl msg \<Rightarrow> Fail 500 ''Database error'' (Some msg)
            | Inr s \<Rightarrow> Json s)
      else Fail 403 ''Summary is disabled'' None)
   \<and> monthly_route e q ''summary'' monthOffset_q appName_q =
     (if parseBoolean (WEB_SUMMARY e) False
      then (case getMonthlyAppStatsForAllDevices q (appName_of appName_q) (offset_of monthOffset_q) of
              Inl msg \<Rightarrow> Fail 500 ''Database error'' (Some msg)
            | Inr s \<Rightarrow> Json s)
      else Fail 403 ''Summary is disabled'' None)
   \<and> stats_route e parseDate (q\<lparr>getDailyStats := gd\<rparr>) now ''summary'' date_q =
       stats_route e parseDate q now ''summary'' date_q
   \<and> weekly_route e (q\<lparr>getWeeklyAppStats := gw\<rparr>) ''summary'' weekOffset_q appName_q =
       weekly_route e q ''summary'' weekOffset_q appName_q
   \<and> monthly_route e (q\<lparr>getMonthlyAppStats := gm\<rparr>) ''summary'' monthOffset_q appName_q =
       monthly_route e q ''summary'' monthOffset_q appName_q"
  by (simp add: stats_route_def weekly_route_def monthly_route_def isSummaryAllowed_def
      split: option.split)

theorem summary_sentinel_witness:
  "stats_route \<lparr>WEB_SUMMARY = JUndefined\<rparr> (\<lambda>s. None) demo_engine 7 ''summary'' None
     = Fail 403 ''Summary is disabled'' None
   \<and> weekly_route \<lparr>WEB_SUMMARY = JStr ''off''\<rparr> demo_engine ''summary'' None None
     = Fail 403 ''Summary is disabled'' None
   \<and> monthly_route \<lparr>WEB_SUMMARY = JStr '' Yes ''\<rparr> demo_engine ''summary'' (Some ''-2'') None
     = Json 18"
proof -
  have o: "offset_of (Some ''-2'') = -2"
    by code_simp
  show ?thesis
    using summary_sentinel [of "\<lparr>WEB_SUMMARY = JUndefined\<rparr>" "\<lambda>s. None" demo_engine 7
            None None None None]
          summary_sentinel [of "\<lparr>WEB_SUMMARY = JStr ''off''\<rparr>" "\<lambda>s. None" demo_engine 7
            None None None None]
          summary_sentinel [of "\<lparr>WEB_SUMMARY = JStr '' Yes ''\<rparr>" "\<lambda>s. None" demo_engine 7
            None None None "Some ''-2''"]
    by (simp add: parseBoolean_off parseBoolean_unset parseBoolean_yes demo_engine_def
        appName_of_def o)
qed

section \<open>Week and month offsets\<close>

text \<open>
  Claim C10. On the weekly and monthly routes an absent offset, and an offset in which
  \<^verbatim>\<open>parseInt\<close> reads no integer, are answered exactly as the offset 0 is: no error is
  signalled for them. An offset in which \<^verbatim>\<open>parseInt\<close> reads the integer \<open>n\<close> queries
  the period \<open>n\<close>.
\<close>

theorem offsets_default_to_zero:
  "weekly_route e q d None aq = weekly_route e q d (Some ''0'') aq
   \<and> monthly_route e q d None aq = monthly_route e q d (Some ''0'') aq
   \<and> (parseInt s = None \<longrightarrow>
        weekly_route e q d (Some s) aq = weekly_route e q d (Some ''0'') aq
        \<and> monthly_route e q d (Some s) aq = monthly_route e q d (Some ''0'') aq)
   \<and> (parseInt s = Some n \<longrightarrow> isSummaryAllowed e d \<longrightarrow>
        weekly_route e q d (Some s) aq =
          (case (if d = ''summary'' then getWeeklyAppStatsForAllDevices q (appName_of aq) n
                 else getWeeklyAppStats q d (appName_of aq) n) of
             Inl msg \<Rightarrow> Fail 500 ''Database error'' (Some msg)
           | Inr r \<Rightarrow> Json r)
        \<and> monthly_route e q d (Some s) aq =
          (case (if d = ''summary'' then getMonthlyAppStatsForAllDevices q (appName_of aq) n
                 else getMonthlyAppStats q d (appName_of aq) n) of
             Inl msg \<Rightarrow> Fail 500 ''Database error'' (Some msg)
           | Inr r \<Rightarrow> Json r))"
  by (simp add: weekly_route_def monthly_route_def offset_of_absent offset_of_present
      parseInt_zero)

theorem offsets_default_to_zero_witness:
  "parseInt ''next'' = None \<and> parseInt ''-1'' = Some (-1)
   \<and> weekly_route \<lparr>WEB_SUMMARY = JUndefined\<rparr> demo_engine ''phone'' None None = Json 30
   \<and> weekly_route \<lparr>WEB_SUMMARY = JUndefined\<rparr> demo_engine ''phone'' (Some ''next'') None = Json 30
   \<and> weekly_route \<lparr>WEB_SUMMARY = JUndefined\<rparr> demo_engine ''phone'' (Some ''0'') None = Json 30
   \<and> monthly_route \<lparr>WEB_SUMMARY = JUndefined\<rparr> demo_engine ''phone'' (Some ''-1'') None = Json 39"
proof -
  have a: "parseInt ''next'' = None"
    by code_simp
  have b: "parseInt ''-1'' = Some (-1)"
    by code_simp
  have g: "isSummaryAllowed \<lparr>WEB_SUMMARY = JUndefined\<rparr> ''phone''"
    by (simp add: isSummaryAllowed_def)
  show ?thesis
    using offsets_default_to_zero [of "\<lparr>WEB_SUMMARY = JUndefined\<rparr>" demo_engine "''phone''"
            None "''next''" 0]
          offsets_default_to_zero [of "\<lparr>WEB_SUMMARY = JUndefined\<rparr>" demo_engine "''phone''"
            None "''0''" 0]
          offsets_default_to_zero [of "\<lparr>WEB_SUMMARY = JUndefined\<rparr>" demo_engine "''phone''"
            None "''-1''" "-1"]
    by (simp add: a b g parseInt_zero demo_engine_def appName_of_def)
qed

section \<open>Daily statistics without data\<close>

text \<open>
  Claim C5. For a device and a date for which the query engine finds no usage (it
  returns nothing, or statistics whose total usage is 0), the daily route answers with
  status 200 and exactly the zero structure: total 0, no apps, 24 zero hours, no
  per-app hours.
\<close>

theorem no_data_is_zero:
  assumes "deviceId \<noteq> ''summary''"
    and "query_date parseDate now date_q = Some date"
    and "getDailyStats q deviceId date = Inr None
         \<or> (\<exists>s. getDailyStats q deviceId date = Inr (Some s) \<and> totalUsage s = 0)"
  shows "stats_route e parseDate q now deviceId date_q =
           Json \<lparr>totalUsage = 0, appStats = Map.empty, hourlyStats = replicate 24 0,
                 appHourlyStats = Map.empty\<rparr>"
  using assms by (auto simp add: stats_route_def zero_stats_def isSummaryAllowed_def)

theorem no_data_is_zero_witness:
  "stats_route \<lparr>WEB_SUMMARY = JUndefined\<rparr> (\<lambda>s. None) demo_engine 7 ''tablet'' None =
     Json \<lparr>totalUsage = 0, appStats = Map.empty, hourlyStats = replicate 24 0,
           appHourlyStats = Map.empty\<rparr>
   \<and> stats_route \<lparr>WEB_SUMMARY = JUndefined\<rparr> (\<lambda>s. None) demo_engine 7 ''phone'' None =
     Json \<lparr>totalUsage = 0, appStats = Map.empty, hourlyStats = replicate 24 0,
           appHourlyStats = Map.empty\<rparr>"
proof -
  have d: "query_date (\<lambda>s. None) 7 None = Some 7"
    by (simp add: query_date_def)
  have n: "''tablet'' \<noteq> ''summary''" "''phone'' \<noteq> ''summary''"
    by simp_all
  have r1: "getDailyStats demo_engine ''tablet'' 7 = Inr None
         \<or> (\<exists>s. getDailyStats demo_engine ''tablet'' 7 = Inr (Some s) \<and> totalUsage s = 0)"
    by (simp add: demo_engine_def)
  have r2: "getDailyStats demo_engine ''phone'' 7 = Inr None
         \<or> (\<exists>s. getDailyStats demo_engine ''phone'' 7 = Inr (Some s) \<and> totalUsage s = 0)"
    by (simp add: demo_engine_def)
  show ?thesis
    using no_data_is_zero [OF n(1) d r1] no_data_is_zero [OF n(2) d r2]
    by simp
qed

section \<open>Rejected and ignored parts of an ingestion request\<close>

lemma recordUsage_batteryInfo:
  "batteryInfo (snd (recordUsage cap ok t st dev app run)) = batteryInfo st"
  by (simp add: recordUsage_def Let_def split: option.split)

lemma recordUsage_accepts:
  assumes "run = JBool False \<or> truthy app"
  shows "fst (recordUsage cap True t st dev app run) = None"
  using assms by (auto simp add: recordUsage_def Let_def split: option.split)

lemma battery_step_skip:
  "batteryLevel b = JUndefined \<or> \<not> in_range (conv c) (batteryLevel b) \<Longrightarrow>
   battery_step c st b = Inr st"
  by (auto simp add: battery_step_def)

lemma battery_step_store:
  "batteryLevel b \<noteq> JUndefined \<Longrightarrow> in_range (conv c) (batteryLevel b) \<Longrightarrow>
   battery_step c st b =
     Inr (st\<lparr>batteryInfo := (batteryInfo st)(device b \<mapsto>
            \<lparr>level = batteryLevel b, charging = (isCharging b = JBool True),
             observedAt = called c + lag_battery c\<rparr>)\<rparr>)"
  by (simp add: battery_step_def recordBattery_def)

lemma in_range_number: "in_range cv (JNum r) \<longleftrightarrow> 0 < r \<and> r \<le> 100"
  by (simp add: in_range_def)

text \<open>
  Claim C1, as stated, fails: a request whose app-state part is invalid is answered 400,
  but a battery level in range that it carries has been stored by then.
\<close>

theorem invalid_app_state_counterexample:
  "running_field bad_app_body = JBool True \<and> app_name bad_app_body = JUndefined
   \<and> fst (post_route demo_ctx empty_recorder bad_app_body) =
       Fail 400 ''Missing app_name when running is true'' None
   \<and> getLatestBatteryInfo (snd (post_route demo_ctx empty_recorder bad_app_body))
        (JStr ''phone'') =
       Some \<lparr>level = JNum 50, charging = False, observedAt = 1002\<rparr>
   \<and> getLatestBatteryInfo empty_recorder (JStr ''phone'') = None"
  by (simp add: post_route_def battery_step_def recordBattery_def in_range_def bad_app_body_def
      demo_body_def demo_ctx_def SECRET_def empty_recorder_def getLatestBatteryInfo_def)

text \<open>
  Claim C1, amended. An authenticated request that names a device and whose app-state
  part is present and invalid (\<^verbatim>\<open>running\<close> is not \<^verbatim>\<open>false\<close> and \<^verbatim>\<open>app_name\<close> is
  empty or missing) is answered 400, and neither the sessions nor the recent-event
  buffers change. The battery state changes only when the same request carries a
  battery level in (0,100]: that sample is stored before the app-state part is checked.
\<close>

theorem invalid_app_state:
  assumes "secret b = SECRET (env_secret c)" and "truthy (device b)"
    and "app_name b \<noteq> JUndefined \<or> running_field b \<noteq> JUndefined"
    and "running_field b \<noteq> JBool False" and "\<not> truthy (app_name b)"
  shows "fst (post_route c st b) = Fail 400 ''Missing app_name when running is true'' None
     \<and> sessions (snd (post_route c st b)) = sessions st
     \<and> recentAppSwitches (snd (post_route c st b)) = recentAppSwitches st
     \<and> (batteryLevel b = JUndefined \<or> \<not> in_range (conv c) (batteryLevel b) \<longrightarrow>
          snd (post_route c st b) = st)
     \<and> (batteryLevel b \<noteq> JUndefined \<and> in_range (conv c) (batteryLevel b) \<longrightarrow>
          snd (post_route c st b) =
            st\<lparr>batteryInfo := (batteryInfo st)(device b \<mapsto>
                 \<lparr>level = batteryLevel b, charging = (isCharging b = JBool True),
                  observedAt = called c + lag_battery c\<rparr>)\<rparr>)"
proof (cases "batteryLevel b \<noteq> JUndefined \<and> in_range (conv c) (batteryLevel b)")
  case True
  then show ?thesis
    using assms by (simp add: post_route_def battery_step_store)
next
  case False
  then have "battery_step c st b = Inr st"
    by (auto simp add: battery_step_skip)
  then show ?thesis
    using assms False by (auto simp add: post_route_def)
qed

theorem invalid_app_state_witness:
  "post_route demo_ctx demo_recorder (demo_body\<lparr>app_name := JStr []\<rparr>) =
     (Fail 400 ''Missing app_name when running is true'' None, demo_recorder)
   \<and> fst (post_route demo_ctx demo_recorder
        (demo_body\<lparr>running_field := JBool True, batteryLevel := JNum 50\<rparr>)) =
     Fail 400 ''Missing app_name when running is true'' None
   \<and> sessions (snd (post_route demo_ctx demo_recorder
        (demo_body\<lparr>running_field := JBool True, batteryLevel := JNum 50\<rparr>))) = []"
proof -
  let ?b1 = "demo_body\<lparr>app_name := JStr []\<rparr>"
  let ?b2 = "demo_body\<lparr>running_field := JBool True, batteryLevel := JNum 50\<rparr>"
  have a1: "secret ?b1 = SECRET (env_secret demo_ctx)" "truthy (device ?b1)"
    "app_name ?b1 \<noteq> JUndefined \<or> running_field ?b1 \<noteq> JUndefined"
    "running_field ?b1 \<noteq> JBool False" "\<not> truthy (app_name ?b1)"
    by (simp_all add: demo_body_def demo_ctx_def SECRET_def)
  have a2: "secret ?b2 = SECRET (env_secret demo_ctx)" "truthy (device ?b2)"
    "app_name ?b2 \<noteq> JUndefined \<or> running_field ?b2 \<noteq> JUndefined"
    "running_field ?b2 \<noteq> JBool False" "\<not> truthy (app_name ?b2)"
    by (simp_all add: demo_body_def demo_ctx_def SECRET_def)
  have u: "batteryLevel ?b1 = JUndefined"
    by (simp add: demo_body_def)
  show ?thesis
    using invalid_app_state [OF a1, of demo_recorder] invalid_app_state [OF a2, of demo_recorder] u
    by (simp add: prod_eq_iff demo_recorder_def empty_recorder_def)
qed

text \<open>
  Claim C2, as stated, fails: a request whose battery level is 0 or 101 is not answered
  with an error. The level is skipped and the reply is the success reply.
\<close>

theorem out_of_range_counterexample:
  "batteryLevel level0_body = JNum 0 \<and> batteryLevel level101_body = JNum 101
   \<and> fst (post_route demo_ctx demo_recorder level0_body) =
     Json \<lparr>success = True,
           reply_batteryInfo = Some \<lparr>level = JNum 80, charging = False, observedAt = 500\<rparr>,
           reply_timestamp = 1009\<rparr>
   \<and> fst (post_route demo_ctx demo_recorder level101_body) =
     Json \<lparr>success = True,
           reply_batteryInfo = Some \<lparr>level = JNum 80, charging = False, observedAt = 500\<rparr>,
           reply_timestamp = 1009\<rparr>"
  by (simp add: post_route_def battery_step_def recordBattery_def in_range_def level0_body_def
      level101_body_def demo_body_def demo_ctx_def SECRET_def demo_recorder_def
      empty_recorder_def getLatestBatteryInfo_def)

text \<open>
  Claim C2, amended. A battery level outside (0,100] is ignored without an error: the
  request is handled exactly as the same request without a battery level, the level is
  not stored, and the battery state of every device is as it was before the request.
\<close>

theorem out_of_range_battery_ignored:
  assumes "\<not> in_range (conv c) (batteryLevel b)"
  shows "post_route c st b = post_route c st (b\<lparr>batteryLevel := JUndefined\<rparr>)
         \<and> batteryInfo (snd (post_route c st b)) = batteryInfo st"
proof -
  have s1: "battery_step c st b = Inr st"
    using assms by (simp add: battery_step_skip)
  have s2: "battery_step c st (b\<lparr>batteryLevel := JUndefined\<rparr>) = Inr st"
    by (simp add: battery_step_skip)
  have eq: "post_route c st b = post_route c st (b\<lparr>batteryLevel := JUndefined\<rparr>)"
    by (simp add: post_route_def s1 s2 split: prod.split option.split)
  have "batteryInfo (snd (post_route c st b)) = batteryInfo st"
    using recordUsage_batteryInfo [of "capacity c" "storage_ok c"
        "called c + lag_battery c + lag_usage c" st "device b" "app_name b" "running_field b"]
    by (auto simp add: post_route_def s1 split: prod.splits option.splits)
  with eq show ?thesis by simp
qed

theorem out_of_range_battery_ignored_witness:
  "\<not> in_range (conv demo_ctx) (JNum 0) \<and> \<not> in_range (conv demo_ctx) (JNum 101)
   \<and> post_route demo_ctx demo_recorder (demo_body\<lparr>batteryLevel := JNum 0\<rparr>) =
       post_route demo_ctx demo_recorder demo_body
   \<and> post_route demo_ctx demo_recorder (demo_body\<lparr>batteryLevel := JNum 101\<rparr>) =
       post_route demo_ctx demo_recorder demo_body
   \<and> batteryInfo (snd (post_route demo_ctx demo_recorder (demo_body\<lparr>batteryLevel := JNum 101\<rparr>)))
       (JStr ''phone'') = Some \<lparr>level = JNum 80, charging = False, observedAt = 500\<rparr>"
proof -
  have r0: "\<not> in_range (conv demo_ctx) (batteryLevel (demo_body\<lparr>batteryLevel := JNum 0\<rparr>))"
    by (simp add: in_range_number)
  have r1: "\<not> in_range (conv demo_ctx) (batteryLevel (demo_body\<lparr>batteryLevel := JNum 101\<rparr>))"
    by (simp add: in_range_number)
  have u0: "demo_body\<lparr>batteryLevel := JNum 0\<rparr>\<lparr>batteryLevel := JUndefined\<rparr> = demo_body"
    by (simp add: demo_body_def)
  have u1: "demo_body\<lparr>batteryLevel := JNum 101\<rparr>\<lparr>batteryLevel := JUndefined\<rparr> = demo_body"
    by (simp add: demo_body_def)
  have p: "batteryInfo demo_recorder (JStr ''phone'') =
      Some \<lparr>level = JNum 80, charging = False, observedAt = 500\<rparr>"
    by (simp add: demo_recorder_def empty_recorder_def)
  have q0: "post_route demo_ctx demo_recorder (demo_body\<lparr>batteryLevel := JNum 0\<rparr>) =
       post_route demo_ctx demo_recorder demo_body
     \<and> batteryInfo (snd (post_route demo_ctx demo_recorder
         (demo_body\<lparr>batteryLevel := JNum 0\<rparr>))) = batteryInfo demo_recorder"
    using out_of_range_battery_ignored [OF r0, of demo_recorder] unfolding u0 .
  have q1: "post_route demo_ctx demo_recorder (demo_body\<lparr>batteryLevel := JNum 101\<rparr>) =
       post_route demo_ctx demo_recorder demo_body
     \<and> batteryInfo (snd (post_route demo_ctx demo_recorder
         (demo_body\<lparr>batteryLevel := JNum 101\<rparr>))) = batteryInfo demo_recorder"
    using out_of_range_battery_ignored [OF r1, of demo_recorder] unfolding u1 .
  have n0: "\<not> in_range (conv demo_ctx) (JNum 0)" and n1: "\<not> in_range (conv demo_ctx) (JNum 101)"
    by (simp_all add: in_range_number)
  from q1 have "batteryInfo (snd (post_route demo_ctx demo_recorder
      (demo_body\<lparr>batteryLevel := JNum 101\<rparr>))) = batteryInfo demo_recorder"
    by (rule conjunct2)
  with p have p1: "batteryInfo (snd (post_route demo_ctx demo_recorder
      (demo_body\<lparr>batteryLevel := JNum 101\<rparr>))) (JStr ''phone'') =
      Some \<lparr>level = JNum 80, charging = False, observedAt = 500\<rparr>"
    by (simp del: post_body.simps)
  from n0 n1 q0 q1 p1 show ?thesis
    by blast
qed

section \<open>Battery round trip\<close>

text \<open>
  Claim C8. An accepted ingestion request that carries a battery level in (0,100], such
  as 55, and \<^verbatim>\<open>isCharging = true\<close> stores exactly that level and charging flag for
  the device: the battery info of the same reply, and a later read of the device's
  latest battery info, give that level and flag, observed at an instant that is not
  before the call.
\<close>

theorem battery_round_trip:
  assumes "secret b = SECRET (env_secret c)" and "truthy (device b)"
    and "batteryLevel b = JNum r" and "0 < r" and "r \<le> 100"
    and "(app_name b = JUndefined \<and> running_field b = JUndefined)
         \<or> running_field b = JBool False \<or> truthy (app_name b)"
    and "storage_ok c"
  shows "fst (post_route c st b) =
         Json \<lparr>success = True,
               reply_batteryInfo =
                 Some \<lparr>level = JNum r, charging = (isCharging b = JBool True),
                       observedAt = called c + lag_battery c\<rparr>,
               reply_timestamp = called c + lag_battery c + lag_usage c + lag_reply c\<rparr>
     \<and> getLatestBatteryInfo (snd (post_route c st b)) (device b) =
         Some \<lparr>level = JNum r, charging = (isCharging b = JBool True),
               observedAt = called c + lag_battery c\<rparr>
     \<and> called c \<le> called c + lag_battery c"
proof -
  let ?bs = "\<lparr>level = JNum r, charging = (isCharging b = JBool True),
              observedAt = called c + lag_battery c\<rparr>"
  let ?st1 = "st\<lparr>batteryInfo := (batteryInfo st)(device b \<mapsto> ?bs)\<rparr>"
  have rng: "batteryLevel b \<noteq> JUndefined" "in_range (conv c) (batteryLevel b)"
    using assms(3-5) by (simp_all add: in_range_def)
  have step: "battery_step c st b = Inr ?st1"
    using battery_step_store [OF rng, of st] assms(3) by simp
  show ?thesis
  proof (cases "app_name b = JUndefined \<and> running_field b = JUndefined")
    case True
    then show ?thesis
      using assms(1,2) by (simp add: post_route_def step getLatestBatteryInfo_def)
  next
    case False
    then have ok: "running_field b = JBool False \<or> truthy (app_name b)"
      using assms(6) by blast
    obtain err st2 where ru: "recordUsage (capacity c) (storage_ok c)
        (called c + lag_battery c + lag_usage c) ?st1 (device b) (app_name b)
        (running_field b) = (err, st2)"
      by (cases "recordUsage (capacity c) (storage_ok c)
        (called c + lag_battery c + lag_usage c) ?st1 (device b) (app_name b)
        (running_field b)")
    have e: "err = None"
      using recordUsage_accepts [OF ok, of "capacity c"
          "called c + lag_battery c + lag_usage c" ?st1 "device b"] ru assms(7)
      by simp
    have bi: "batteryInfo st2 = batteryInfo ?st1"
      using recordUsage_batteryInfo [of "capacity c" "storage_ok c"
        "called c + lag_battery c + lag_usage c" ?st1 "device b" "app_name b"
        "running_field b"] ru
      by simp
    show ?thesis
      using assms(1,2) False ok ru e bi
      by (auto simp add: post_route_def step getLatestBatteryInfo_def)
  qed
qed

theorem battery_round_trip_witness:
  "fst (post_route demo_ctx demo_recorder demo_body55) =
     Json \<lparr>success = True,
           reply_batteryInfo = Some \<lparr>level = JNum 55, charging = True, observedAt = 1002\<rparr>,
           reply_timestamp = 1009\<rparr>
   \<and> getLatestBatteryInfo (snd (post_route demo_ctx demo_recorder demo_body55))
       (JStr ''phone'') =
       Some \<lparr>level = JNum 55, charging = True, observedAt = 1002\<rparr>
   \<and> (1000::nat) \<le> 1002"
proof -
  have h1: "secret demo_body55 = SECRET (env_secret demo_ctx)"
    by (simp add: demo_body55_def demo_body_def demo_ctx_def SECRET_def)
  have h2: "truthy (device demo_body55)"
    by (simp add: demo_body55_def demo_body_def)
  have h3: "batteryLevel demo_body55 = JNum 55"
    by (simp add: demo_body55_def)
  have h6: "(app_name demo_body55 = JUndefined \<and> running_field demo_body55 = JUndefined)
         \<or> running_field demo_body55 = JBool False \<or> truthy (app_name demo_body55)"
    by (simp add: demo_body55_def)
  have h7: "storage_ok demo_ctx"
    by (simp add: demo_ctx_def)
  show ?thesis
    using battery_round_trip [OF h1 h2 h3 _ _ h6 h7, of demo_recorder]
    by (simp add: demo_body55_def demo_body_def demo_ctx_def)
qed

section \<open>The date of a daily query\<close>

text \<open>
  Claim C6, as stated, fails: a date parameter that is supplied empty cannot be parsed,
  yet the query is answered with the statistics of the current day.
\<close>

theorem empty_date_counterexample:
  "demo_parseDate [] = None
   \<and> stats_route demo_env demo_parseDate watch_engine 7 ''watch'' (Some []) =
       Json (watch_stats 7)
   \<and> totalUsage (watch_stats 7) = 7
   \<and> stats_route demo_env demo_parseDate watch_engine 7 ''watch'' (Some []) \<noteq>
       Fail 400 ''Invalid date format. Please use YYYY-MM-DD format.'' None"
  by (simp add: demo_parseDate_def stats_route_def isSummaryAllowed_def query_date_def
      watch_engine_def demo_engine_def watch_stats_def demo_env_def)

text \<open>
  Claim C6, amended. A daily query that passes the summary gate and supplies a
  non-empty date parameter which cannot be parsed is answered 400, whatever the query
  engine would return. When the date parameter is absent or empty, the query is
  answered from the engine's result for the current instant.
\<close>

theorem unparseable_date:
  assumes "isSummaryAllowed e deviceId"
  shows "(s \<noteq> [] \<and> parseDate s = None \<longrightarrow>
           stats_route e parseDate q now deviceId (Some s) =
             Fail 400 ''Invalid date format. Please use YYYY-MM-DD format.'' None)
     \<and> stats_route e parseDate q now deviceId (Some []) =
         stats_route e parseDate q now deviceId None
     \<and> stats_route e parseDate q now deviceId None =
         (case (if deviceId = ''summary'' then getDailyStatsForAllDevices q now
                else getDailyStats q deviceId now) of
            Inl msg \<Rightarrow> Fail 500 ''Database error'' (Some msg)
          | Inr None \<Rightarrow> Json zero_stats
          | Inr (Some r) \<Rightarrow> (if totalUsage r = 0 then Json zero_stats else Json r))"
  using assms by (simp add: stats_route_def query_date_def)

theorem unparseable_date_witness:
  "stats_route demo_env demo_parseDate watch_engine 7 ''watch'' (Some ''tomorrow'')
     = Fail 400 ''Invalid date format. Please use YYYY-MM-DD format.'' None
   \<and> stats_route demo_env demo_parseDate watch_engine 7 ''watch'' None = Json (watch_stats 7)"
proof -
  have g: "isSummaryAllowed demo_env ''watch''"
    by (simp add: isSummaryAllowed_def)
  have p: "''tomorrow'' \<noteq> [] \<and> demo_parseDate ''tomorrow'' = None"
    by (simp add: demo_parseDate_def)
  show ?thesis
    using unparseable_date [OF g, of "''tomorrow''" demo_parseDate watch_engine 7] p
    by (simp add: watch_engine_def demo_engine_def watch_stats_def)
qed

section \<open>Recent switches\<close>

text \<open>
  Claim C7. The recent-switches route of a device returns the device's recent-event
  buffer entry by entry and in order, with its length as the count, and the empty list
  for a device without a buffer. Each returned entry carries the stored app name and
  time, and its running flag is true unless the stored event's \<^verbatim>\<open>running\<close> is
  \<^verbatim>\<open>false\<close>; the entries of the all-devices route are built by the same view.
\<close>

theorem recent_switches_view:
  "recent_route st deviceId =
     Json \<lparr>rr_success = True,
           rr_data = map entry_view
             (case recentAppSwitches st (JStr deviceId) of None \<Rightarrow> [] | Some es \<Rightarrow> es),
           rr_count = length
             (case recentAppSwitches st (JStr deviceId) of None \<Rightarrow> [] | Some es \<Rightarrow> es)\<rparr>
   \<and> (recentAppSwitches st (JStr deviceId) = None \<longrightarrow>
        recent_route st deviceId = Json \<lparr>rr_success = True, rr_data = [], rr_count = 0\<rparr>)
   \<and> r_appName (entry_view entry) = appName entry
   \<and> r_timestamp (entry_view entry) = timestamp entry
   \<and> (r_running (entry_view entry) \<longleftrightarrow> running entry \<noteq> JBool False)"
  by (simp add: recent_route_def entry_view_def split: option.split)

lemma after_events_buffer:
  "recentAppSwitches after_events (JStr ''phone'') =
     Some [\<lparr>appName = JStr ''mail'', timestamp = 1005, running = JUndefined\<rparr>,
           \<lparr>appName = JStr ''mail'', timestamp = 1005, running = JBool False\<rparr>]"
  by (simp add: after_events_def post_route_def battery_step_def recordUsage_def
      open_session_def is_open_def push_recent_def in_range_def
      demo_ctx_def demo_body_def demo_recorder_def empty_recorder_def SECRET_def)

lemma after_events_other:
  "recentAppSwitches after_events (JStr ''tablet'') = None"
  by (simp add: after_events_def post_route_def battery_step_def recordUsage_def
      open_session_def is_open_def push_recent_def in_range_def
      demo_ctx_def demo_body_def demo_recorder_def empty_recorder_def SECRET_def)

theorem recent_switches_view_witness:
  "recent_route after_events ''phone'' =
     Json \<lparr>rr_success = True,
           rr_data = [\<lparr>r_appName = JStr ''mail'', r_timestamp = 1005, r_running = True\<rparr>,
                      \<lparr>r_appName = JStr ''mail'', r_timestamp = 1005, r_running = False\<rparr>],
           rr_count = 2\<rparr>
   \<and> recent_route after_events ''tablet'' =
       Json \<lparr>rr_success = True, rr_data = [], rr_count = 0\<rparr>"
  using recent_switches_view [of after_events "''phone''"]
        recent_switches_view [of after_events "''tablet''"]
  by (simp add: after_events_buffer after_events_other entry_view_def)

section \<open>One open session per device\<close>

lemma open_session_None: "open_session st dev = None \<longleftrightarrow> open_count dev (sessions st) = 0"
  by (auto simp add: open_session_def open_count_def find_None_iff filter_empty_conv)

lemma open_count_append:
  "open_count d (ss @ [\<lparr>us_device = dev, us_app = a, startedAt = t, endedAt = None\<rparr>]) =
     open_count d ss + (if d = dev then 1 else 0)"
  by (simp add: open_count_def is_open_def)

lemma open_count_close:
  "open_count d (close_session dev t ss) =
     (if d = dev then open_count dev ss - 1 else open_count d ss)"
  by (induction ss) (auto simp add: open_count_def is_open_def)

lemma recordUsage_open_count:
  assumes "open_count d (sessions st) \<le> 1"
  shows "open_count d (sessions (snd (recordUsage cap ok t st dev app run))) \<le> 1"
proof (cases "open_session st dev")
  case None
  then have "open_count dev (sessions st) = 0"
    by (simp add: open_session_None)
  with None assms show ?thesis
    by (auto simp add: recordUsage_def Let_def open_count_append)
next
  case (Some s)
  with assms show ?thesis
    by (auto simp add: recordUsage_def Let_def open_count_append open_count_close)
qed

lemma battery_step_sessions:
  "battery_step c st b = Inr st1 \<Longrightarrow> sessions st1 = sessions st"
  by (auto simp add: battery_step_def recordBattery_def split: if_splits)

lemma post_route_state:
  "snd (post_route c st b) = st
   \<or> (\<exists>st1. battery_step c st b = Inr st1
        \<and> (snd (post_route c st b) = st1
           \<or> snd (post_route c st b) =
               snd (recordUsage (capacity c) (storage_ok c)
                      (called c + lag_battery c + lag_usage c) st1 (device b) (app_name b)
                      (running_field b))))"
  by (simp add: post_route_def split: sum.split prod.split option.split)

lemma post_route_open_count:
  assumes "open_count d (sessions st) \<le> 1"
  shows "open_count d (sessions (snd (post_route c st b))) \<le> 1"
proof -
  consider "snd (post_route c st b) = st"
    | st1 where "battery_step c st b = Inr st1" "snd (post_route c st b) = st1"
    | st1 where "battery_step c st b = Inr st1"
        "snd (post_route c st b) =
           snd (recordUsage (capacity c) (storage_ok c)
                  (called c + lag_battery c + lag_usage c) st1 (device b) (app_name b)
                  (running_field b))"
    using post_route_state [of c st b] by blast
  then show ?thesis
  proof cases
    case 1
    with assms show ?thesis by simp
  next
    case 2
    with assms show ?thesis by (simp add: battery_step_sessions)
  next
    case 3
    have "open_count d (sessions st1) \<le> 1"
      using assms 3(1) by (simp add: battery_step_sessions)
    then have "open_count d (sessions (snd (recordUsage (capacity c) (storage_ok c)
          (called c + lag_battery c + lag_usage c) st1 (device b) (app_name b)
          (running_field b)))) \<le> 1"
      by (rule recordUsage_open_count)
    with 3(2) show ?thesis by simp
  qed
qed

lemma ingest_all_open_count:
  "open_count d (sessions st) \<le> 1 \<Longrightarrow> open_count d (sessions (ingest_all st rs)) \<le> 1"
proof (induction rs arbitrary: st)
  case Nil
  then show ?case by simp
next
  case (Cons r rs)
  obtain c b where r: "r = (c, b)" by (cases r)
  from Cons.prems have "open_count d (sessions (snd (post_route c st b))) \<le> 1"
    by (rule post_route_open_count)
  then show ?case
    using Cons.IH r by simp
qed

lemma single_open:
  "length (filter P xs) \<le> 1 \<Longrightarrow> find P xs = Some s \<Longrightarrow> filter P xs = [s]"
  by (induction xs) (auto split: if_splits)

lemma find_None_filter: "find P xs = None \<Longrightarrow> filter P xs = []"
  by (simp add: find_None_iff filter_empty_conv)

lemma find_Some_holds: "find P xs = Some s \<Longrightarrow> P s"
  by (induction xs) (auto split: if_splits)

text \<open>
  Claim C3. The session state of every device starts as \<open>NoSession\<close>. After any
  sequence of ingestion requests, of any devices in any order, a device has at most one
  open session: its state is \<open>NoSession\<close> and none of its sessions is open, or it is
  \<open>Open app start\<close> and exactly that one session is open.
\<close>

theorem one_open_session:
  "session_state_of empty_recorder dev = NoSession
   \<and> open_count dev (sessions (ingest_all empty_recorder reqs)) \<le> 1
   \<and> (case session_state_of (ingest_all empty_recorder reqs) dev of
        NoSession \<Rightarrow> filter (is_open dev) (sessions (ingest_all empty_recorder reqs)) = []
      | Open a t \<Rightarrow>
          filter (is_open dev) (sessions (ingest_all empty_recorder reqs)) =
            [\<lparr>us_device = dev, us_app = a, startedAt = t, endedAt = None\<rparr>])"
proof -
  let ?st = "ingest_all empty_recorder reqs"
  have init: "session_state_of empty_recorder dev = NoSession"
    by (simp add: session_state_of_def open_session_def empty_recorder_def)
  have "open_count dev (sessions empty_recorder) \<le> 1"
    by (simp add: open_count_def empty_recorder_def)
  then have le: "open_count dev (sessions ?st) \<le> 1"
    by (rule ingest_all_open_count)
  have shape: "(case session_state_of ?st dev of
        NoSession \<Rightarrow> filter (is_open dev) (sessions ?st) = []
      | Open a t \<Rightarrow> filter (is_open dev) (sessions ?st) =
            [\<lparr>us_device = dev, us_app = a, startedAt = t, endedAt = None\<rparr>])"
  proof (cases "open_session ?st dev")
    case None
    then show ?thesis
      by (simp add: session_state_of_def open_session_def find_None_filter)
  next
    case (Some s)
    then have f: "find (is_open dev) (sessions ?st) = Some s"
      by (simp add: open_session_def)
    have one: "filter (is_open dev) (sessions ?st) = [s]"
      using le f by (simp add: single_open open_count_def)
    have "is_open dev s"
      using f by (rule find_Some_holds)
    then have "s = \<lparr>us_device = dev, us_app = us_app s, startedAt = startedAt s, endedAt = None\<rparr>"
      by (simp add: is_open_def)
    with one Some show ?thesis
      by (simp add: session_state_of_def)
  qed
  from init le shape show ?thesis by blast
qed


lemma demo_requests_sessions:
  "sessions (ingest_all empty_recorder demo_requests) =
     [\<lparr>us_device = JStr ''phone'', us_app = JStr ''mail'', startedAt = 1005, endedAt = Some 2005\<rparr>,
      \<lparr>us_device = JStr ''phone'', us_app = JStr ''maps'', startedAt = 2005, endedAt = None\<rparr>,
      \<lparr>us_device = JStr ''tablet'', us_app = JStr ''mail'', startedAt = 3005, endedAt = None\<rparr>]"
  by (simp add: demo_requests_def post_route_def battery_step_def recordBattery_def
      recordUsage_def open_session_def is_open_def push_recent_def in_range_def
      demo_ctx_def demo_body_def empty_recorder_def SECRET_def)

theorem one_open_session_witness:
  "open_count (JStr ''phone'') (sessions (ingest_all empty_recorder demo_requests)) = 1
   \<and> session_state_of (ingest_all empty_recorder demo_requests) (JStr ''phone'') =
       Open (JStr ''maps'') 2005
   \<and> session_state_of (ingest_all empty_recorder demo_requests) (JStr ''watch'') = NoSession"
  using one_open_session [of "JStr ''phone''" demo_requests]
        one_open_session [of "JStr ''watch''" demo_requests]
  by (simp add: demo_requests_sessions session_state_of_def open_session_def is_open_def
      open_count_def)


section \<open>The all-devices merge is the element-wise sum\<close>

lemma length_add_hist: "length (add_hist a b) = 24"
  by (simp add: add_hist_def)

lemma nth_add_hist: "h < 24 \<Longrightarrow> add_hist a b ! h = a ! h + b ! h"
  by (simp add: add_hist_def del: upt.simps)

lemma add_hist_assoc: "add_hist (add_hist a b) c = add_hist a (add_hist b c)"
proof -
  have "\<And>h. h < 24 \<Longrightarrow> add_hist a b ! h + c ! h = a ! h + add_hist b c ! h"
    by (simp add: nth_add_hist)
  then show ?thesis
    unfolding add_hist_def [of "add_hist a b" c] add_hist_def [of a "add_hist b c"]
    by (intro map_cong) auto
qed

lemma map_nth_24: "length a = 24 \<Longrightarrow> map (\<lambda>h. a ! h) [0..<24] = a"
  using map_nth [of a] by simp

lemma add_hist_zero_right: "length a = 24 \<Longrightarrow> add_hist a (replicate 24 0) = a"
proof -
  assume l: "length a = 24"
  have "map (\<lambda>h. a ! h + replicate 24 0 ! h) [0..<24] = map (\<lambda>h. a ! h) [0..<24]"
    by (intro map_cong) auto
  with l show ?thesis by (simp only: add_hist_def map_nth_24)
qed

lemma add_hist_zero_left: "length a = 24 \<Longrightarrow> add_hist (replicate 24 0) a = a"
proof -
  assume l: "length a = 24"
  have "map (\<lambda>h. replicate 24 0 ! h + a ! h) [0..<24] = map (\<lambda>h. a ! h) [0..<24]"
    by (intro map_cong) auto
  with l show ?thesis by (simp only: add_hist_def map_nth_24)
qed

lemma add_opt_assoc: "add_opt (add_opt x y) z = add_opt x (add_opt y z)"
  by (simp add: add_opt_def split: option.split)

lemma add_opt_hist_assoc: "add_opt_hist (add_opt_hist x y) z = add_opt_hist x (add_opt_hist y z)"
  by (simp add: add_opt_hist_def add_hist_assoc split: option.split)

lemma merge_stats_assoc: "merge_stats (merge_stats a b) c = merge_stats a (merge_stats b c)"
  by (simp add: merge_stats_def add_opt_assoc add_opt_hist_assoc add_hist_assoc)

lemma wf_zero_stats: "wf_stats zero_stats"
  by (simp add: wf_stats_def zero_stats_def)

lemma wf_merge_stats: "wf_stats a \<Longrightarrow> wf_stats b \<Longrightarrow> wf_stats (merge_stats a b)"
  by (auto simp add: wf_stats_def merge_stats_def length_add_hist add_opt_hist_def
      split: option.splits)

lemma wf_sum_stats: "wf_stats (sum_stats xs)"
  by (simp add: wf_stats_def sum_stats_def)

lemma add_opt_None: "add_opt x None = x" "add_opt None x = x"
  by (simp_all add: add_opt_def split: option.split)

lemma add_opt_hist_None: "add_opt_hist x None = x" "add_opt_hist None x = x"
  by (simp_all add: add_opt_hist_def split: option.split)

lemma merge_zero_right: "wf_stats a \<Longrightarrow> merge_stats a zero_stats = a"
  by (simp add: wf_stats_def merge_stats_def zero_stats_def add_hist_zero_right add_opt_None
      add_opt_hist_None)

lemma merge_zero_left: "wf_stats a \<Longrightarrow> merge_stats zero_stats a = a"
  by (simp add: wf_stats_def merge_stats_def zero_stats_def add_hist_zero_left add_opt_None
      add_opt_hist_None)

lemma sum_stats_Nil: "sum_stats [] = zero_stats"
  by (simp add: sum_stats_def zero_stats_def map_replicate_const del: upt.simps)

lemma nth_map_24: "h < 24 \<Longrightarrow> map F [0..<24] ! h = F h"
  by (simp del: upt.simps)

lemma add_hist_map: "add_hist a (map F [0..<24]) = map (\<lambda>h. a ! h + F h) [0..<24]"
proof -
  have "map (\<lambda>h. a ! h + map F [0..<24] ! h) [0..<24] = map (\<lambda>h. a ! h + F h) [0..<24]"
    by (intro map_cong) (auto simp add: nth_map_24 simp del: upt.simps)
  then show ?thesis by (simp only: add_hist_def)
qed

lemma sum_stats_Cons:
  assumes "wf_stats x"
  shows "sum_stats (x # xs) = merge_stats x (sum_stats xs)"
proof -
  have t: "totalUsage (sum_stats (x # xs)) = totalUsage (merge_stats x (sum_stats xs))"
    by (simp add: sum_stats_def merge_stats_def)
  have a: "appStats (sum_stats (x # xs)) = appStats (merge_stats x (sum_stats xs))"
    by (rule ext) (auto simp add: sum_stats_def merge_stats_def add_opt_def split: option.split)
  have h: "hourlyStats (sum_stats (x # xs)) = hourlyStats (merge_stats x (sum_stats xs))"
    by (simp add: sum_stats_def merge_stats_def add_hist_map del: upt.simps)
  have ah: "appHourlyStats (sum_stats (x # xs)) k = appHourlyStats (merge_stats x (sum_stats xs)) k" for k
  proof (cases "appHourlyStats x k")
    case None
    then show ?thesis
      by (simp add: sum_stats_def merge_stats_def add_opt_hist_None)
  next
    case (Some hs)
    then have l: "length hs = 24"
      using assms by (simp add: wf_stats_def)
    show ?thesis
    proof (cases "\<exists>y\<in>set xs. appHourlyStats y k \<noteq> None")
      case True
      with Some show ?thesis
        by (simp add: sum_stats_def merge_stats_def add_opt_hist_def add_hist_map del: upt.simps)
    next
      case False
      then have z: "(\<Sum>y\<leftarrow>xs. case appHourlyStats y k of None \<Rightarrow> 0 | Some hs \<Rightarrow> hs ! h) = 0" for h
        by (induction xs) auto
      from False Some l show ?thesis
        by (simp add: sum_stats_def merge_stats_def add_opt_hist_def z map_nth_24 del: upt.simps)
    qed
  qed
  from t a h ah show ?thesis
    by (intro stats.equality) (auto simp add: sum_stats_def merge_stats_def)
qed

lemma merge_devices_sum:
  assumes "\<forall>d\<in>set ds. \<exists>r. f d = Inr r"
    and "\<forall>d\<in>set ds. wf_stats (stats_or_zero (f d))"
    and "wf_stats acc"
  shows "merge_devices f ds acc =
           Inr (merge_stats acc (sum_stats (map (\<lambda>d. stats_or_zero (f d)) ds)))"
  using assms
proof (induction ds arbitrary: acc)
  case Nil
  then show ?case by (simp add: sum_stats_Nil merge_zero_right)
next
  case (Cons d ds)
  from Cons.prems(1) obtain r where r: "f d = Inr r" by auto
  have ih: "wf_stats acc' \<Longrightarrow> merge_devices f ds acc' =
           Inr (merge_stats acc' (sum_stats (map (\<lambda>d. stats_or_zero (f d)) ds)))" for acc'
    using Cons.IH [of acc'] Cons.prems(1,2) by simp
  show ?case
  proof (cases r)
    case None
    with r have z: "stats_or_zero (f d) = zero_stats"
      by (simp add: stats_or_zero_def)
    have "sum_stats (zero_stats # map (\<lambda>d. stats_or_zero (f d)) ds) =
        sum_stats (map (\<lambda>d. stats_or_zero (f d)) ds)"
      by (simp add: sum_stats_Cons wf_zero_stats merge_zero_left wf_sum_stats)
    with r None z ih [OF Cons.prems(3)] show ?thesis by simp
  next
    case (Some s)
    with r have z: "stats_or_zero (f d) = s"
      by (simp add: stats_or_zero_def)
    with Cons.prems(2) have ws: "wf_stats s" by auto
    then have wm: "wf_stats (merge_stats acc s)"
      using Cons.prems(3) by (simp add: wf_merge_stats)
    from r Some z ws ih [OF wm] show ?thesis
      by (simp add: merge_stats_assoc sum_stats_Cons)
  qed
qed

lemma sum_stats_drop_zero:
  assumes "\<forall>d\<in>set ds. wf_stats (g d)"
  shows "sum_stats (map g (filter (\<lambda>d. g d \<noteq> zero_stats) ds)) = sum_stats (map g ds)"
  using assms
proof (induction ds)
  case Nil
  then show ?case by simp
next
  case (Cons d ds)
  then have ih: "sum_stats (map g (filter (\<lambda>d. g d \<noteq> zero_stats) ds)) = sum_stats (map g ds)"
    by simp
  from Cons.prems have w: "wf_stats (g d)" by simp
  show ?case
  proof (cases "g d = zero_stats")
    case True
    then show ?thesis
      using ih by (simp add: sum_stats_Cons wf_zero_stats merge_zero_left wf_sum_stats)
  next
    case False
    then show ?thesis
      using ih w by (simp add: sum_stats_Cons)
  qed
qed

text \<open>
  Claim C4. When no per-device query fails and every histogram has 24 entries, the
  all-devices daily statistics are the element-wise sum of the per-device daily
  statistics over the listed devices. Devices with zero usage contribute nothing:
  leaving them out of the list gives the same result, and they do not fail the merge.
\<close>

theorem all_devices_is_sum:
  assumes "\<forall>d\<in>set devices. \<exists>r. daily d date = Inr r"
    and "\<forall>d\<in>set devices. wf_stats (stats_or_zero (daily d date))"
  shows "all_devices_daily daily devices date =
           Inr (Some (sum_stats (map (\<lambda>d. stats_or_zero (daily d date)) devices)))
     \<and> all_devices_daily daily
         (filter (\<lambda>d. stats_or_zero (daily d date) \<noteq> zero_stats) devices) date =
       all_devices_daily daily devices date"
proof -
  let ?g = "\<lambda>d. stats_or_zero (daily d date)"
  let ?nz = "filter (\<lambda>d. ?g d \<noteq> zero_stats) devices"
  have full: "all_devices_daily daily devices date = Inr (Some (sum_stats (map ?g devices)))"
    using merge_devices_sum [of devices "\<lambda>d. daily d date" zero_stats] assms
    by (simp add: all_devices_daily_def wf_zero_stats merge_zero_left wf_sum_stats)
  have sub: "all_devices_daily daily ?nz date = Inr (Some (sum_stats (map ?g ?nz)))"
    using merge_devices_sum [of ?nz "\<lambda>d. daily d date" zero_stats] assms
    by (simp add: all_devices_daily_def wf_zero_stats merge_zero_left wf_sum_stats)
  have "sum_stats (map ?g ?nz) = sum_stats (map ?g devices)"
    using assms(2) by (rule sum_stats_drop_zero)
  with full sub show ?thesis by simp
qed


theorem all_devices_is_sum_witness:
  "(\<exists>m. all_devices_daily demo_daily [''phone'', ''tablet'', ''watch''] 7 = Inr (Some m)
        \<and> totalUsage m = 12
        \<and> appStats m ''mail'' = Some 7 \<and> appStats m ''maps'' = Some 5
        \<and> appStats m ''chat'' = None
        \<and> hourlyStats m ! 9 = 7 \<and> hourlyStats m ! 10 = 5 \<and> length (hourlyStats m) = 24
        \<and> map_option (\<lambda>hs. hs ! 9) (appHourlyStats m ''mail'') = Some 7)
   \<and> all_devices_daily demo_daily [''phone'', ''watch''] 7 =
       all_devices_daily demo_daily [''phone'', ''tablet'', ''watch''] 7"
proof -
  let ?ds = "[''phone'', ''tablet'', ''watch'']"
  have ok: "\<forall>d\<in>set ?ds. \<exists>r. demo_daily d 7 = Inr r"
    by (simp add: demo_daily_def)
  have wf: "\<forall>d\<in>set ?ds. wf_stats (stats_or_zero (demo_daily d 7))"
    by (simp add: demo_daily_def stats_or_zero_def wf_stats_def zero_stats_def)
  have nz: "filter (\<lambda>d. stats_or_zero (demo_daily d 7) \<noteq> zero_stats) ?ds = [''phone'', ''watch'']"
    by (simp add: demo_daily_def stats_or_zero_def zero_stats_def)
  have n9: "(9::nat) < 24" and n10: "(10::nat) < 24"
    by simp_all
  note th = all_devices_is_sum [of "[''phone'', ''tablet'', ''watch'']" demo_daily 7, OF ok wf]
  have e: "all_devices_daily demo_daily ?ds 7 =
      Inr (Some (sum_stats (map (\<lambda>d. stats_or_zero (demo_daily d 7)) ?ds)))"
    using th by (rule conjunct1)
  have f: "all_devices_daily demo_daily [''phone'', ''watch''] 7 =
       all_devices_daily demo_daily ?ds 7"
    using th unfolding nz by (rule conjunct2)
  have v: "totalUsage (sum_stats (map (\<lambda>d. stats_or_zero (demo_daily d 7)) ?ds)) = 12"
    "appStats (sum_stats (map (\<lambda>d. stats_or_zero (demo_daily d 7)) ?ds)) ''mail'' = Some 7"
    "appStats (sum_stats (map (\<lambda>d. stats_or_zero (demo_daily d 7)) ?ds)) ''maps'' = Some 5"
    "appStats (sum_stats (map (\<lambda>d. stats_or_zero (demo_daily d 7)) ?ds)) ''chat'' = None"
    "hourlyStats (sum_stats (map (\<lambda>d. stats_or_zero (demo_daily d 7)) ?ds)) ! 9 = 7"
    "hourlyStats (sum_stats (map (\<lambda>d. stats_or_zero (demo_daily d 7)) ?ds)) ! 10 = 5"
    "length (hourlyStats (sum_stats (map (\<lambda>d. stats_or_zero (demo_daily d 7)) ?ds))) = 24"
    "map_option (\<lambda>hs. hs ! 9)
       (appHourlyStats (sum_stats (map (\<lambda>d. stats_or_zero (demo_daily d 7)) ?ds)) ''mail'') = Some 7"
    by (simp_all add: sum_stats_def demo_daily_def stats_or_zero_def zero_stats_def
        nth_map_24 [OF n9] nth_map_24 [OF n10] del: upt.simps)
  from e f v show ?thesis
    by (intro conjI exI [of _ "sum_stats (map (\<lambda>d. stats_or_zero (demo_daily d 7)) ?ds)"])
       (simp_all only:)
qed


end
